theory Spec2Isabelle
  imports Complex_Main
begin

section \<open>Values read from the JSON files and request bodies\<close>

text \<open>
  Python's \<^verbatim>\<open>json.load\<close> returns \<^verbatim>\<open>None\<close>, \<^verbatim>\<open>bool\<close>, \<^verbatim>\<open>int\<close>,
  \<^verbatim>\<open>float\<close>, \<^verbatim>\<open>str\<close>, \<^verbatim>\<open>list\<close> and \<^verbatim>\<open>dict\<close> values.  The
  integers are unbounded.  A float is a finite number, an infinity or a NaN (the decoder
  accepts the literals \<^verbatim>\<open>Infinity\<close>, \<^verbatim>\<open>-Infinity\<close> and \<^verbatim>\<open>NaN\<close>).  A dict is
  kept as the list of its items and read with \<open>map_of\<close>.
\<close>

datatype pyfloat = Finite rat | PosInf | NegInf | NaN

datatype json =
    JNull
  | JBool bool
  | JInt int
  | JFloat pyfloat
  | JStr string
  | JArr "json list"
  | JObj "(string \<times> json) list"

type_synonym dict = "(string \<times> json) list"

fun is_dict :: "json \<Rightarrow> bool" where
  "is_dict (JObj d) = True"
| "is_dict v = False"

text \<open>\<^verbatim>\<open>d.get(k)\<close>: the value under \<open>k\<close>, \<^verbatim>\<open>None\<close> when the key is absent.\<close>

definition dict_get :: "dict \<Rightarrow> string \<Rightarrow> json" where
  "dict_get d k = (case map_of d k of None \<Rightarrow> JNull | Some v \<Rightarrow> v)"

text \<open>\<^verbatim>\<open>d.get(k, default)\<close>.\<close>

definition dict_get_default :: "dict \<Rightarrow> string \<Rightarrow> json \<Rightarrow> json" where
  "dict_get_default d k dflt = (case map_of d k of None \<Rightarrow> dflt | Some v \<Rightarrow> v)"

section \<open>Exceptions and the response status\<close>

text \<open>
  \<open>HTTPException\<close> is the only exception the handlers raise themselves; it carries the
  status code and the detail.  \<open>RequestValidationError\<close> is raised by the framework when
  a request body does not fit the handler's parameter model, before the handler runs.
  \<open>ValidationError\<close> is pydantic's, raised when a model is constructed inside a handler.
  Both carry field-level detail: the list of (field, error type).  The others are the
  Python run-time errors the handlers can run into.
\<close>

datatype error =
    HTTPException nat string
  | RequestValidationError "(string \<times> string) list"
  | ValidationError "(string \<times> string) list"
  | JSONDecodeError string
  | AttributeError string
  | TypeError string
  | ValueError string
  | OverflowError string
  | KeyError string

text \<open>
  The status the caller sees.  An \<open>HTTPException\<close> is answered with its own status, a
  \<open>RequestValidationError\<close> with 422.  Neither module registers an exception handler,
  so every other exception leaving a handler is answered with 500.
\<close>

fun status_code :: "error \<Rightarrow> nat" where
  "status_code (HTTPException c d) = c"
| "status_code (RequestValidationError errs) = 422"
| "status_code e = 500"

definition client_error :: "error \<Rightarrow> bool" where
  "client_error e = (400 \<le> status_code e \<and> status_code e < 500)"



section \<open>Field validation of the pydantic models\<close>

text \<open>
  The models are pydantic 2 models in the default (lax) mode: \<^verbatim>\<open>populate_by_name\<close> is a
  pydantic 2 configuration key.  A \<^verbatim>\<open>str\<close> field takes a string and nothing else.  An
  \<^verbatim>\<open>int\<close> field takes an integer, a boolean (as 0 or 1), a finite float without
  fractional part that lies strictly between \<open>- 2\<^sup>6\<^sup>3\<close> and \<open>2\<^sup>6\<^sup>3\<close>, and a
  string that pydantic parses as an integer; that parser is the parameter
  \<open>str_as_int\<close>.  The argument is \<open>None\<close> when the field is missing from the
  input.  The result is the validated value or the error type.
\<close>

fun validate_str :: "json option \<Rightarrow> string + string" where
  "validate_str None = Inl ''missing''"
| "validate_str (Some (JStr s)) = Inr s"
| "validate_str (Some v) = Inl ''string_type''"

fun validate_int :: "(string \<Rightarrow> int option) \<Rightarrow> json option \<Rightarrow> string + int" where
  "validate_int str_as_int None = Inl ''missing''"
| "validate_int str_as_int (Some (JInt n)) = Inr n"
| "validate_int str_as_int (Some (JBool b)) = Inr (if b then 1 else 0)"
| "validate_int str_as_int (Some (JFloat (Finite q))) =
     (if q \<noteq> of_int \<lfloor>q\<rfloor> then Inl ''int_from_float''
      else if - 9223372036854775808 < q \<and> q < 9223372036854775808 then Inr \<lfloor>q\<rfloor>
      else Inl ''int_parsing_size'')"
| "validate_int str_as_int (Some (JFloat f)) = Inl ''finite_number''"
| "validate_int str_as_int (Some (JStr s)) =
     (case str_as_int s of None \<Rightarrow> Inl ''int_parsing'' | Some n \<Rightarrow> Inr n)"
| "validate_int str_as_int (Some v) = Inl ''int_type''"

text \<open>An \<^verbatim>\<open>Optional[str] = None\<close> field given a value: \<^verbatim>\<open>None\<close> or a string.\<close>

fun validate_opt_str :: "json \<Rightarrow> string + string option" where
  "validate_opt_str JNull = Inr None"
| "validate_opt_str (JStr s) = Inr (Some s)"
| "validate_opt_str v = Inl ''string_type''"

definition field_errors :: "string \<Rightarrow> string + 'a \<Rightarrow> (string \<times> string) list" where
  "field_errors loc r = (case r of Inl ty \<Rightarrow> [(loc, ty)] | Inr v \<Rightarrow> [])"

section \<open>morning.py: the static catalog reader\<close>

subsection \<open>Models\<close>

record Trip =
  depTime :: string
  routeId :: int

record ScheduleResponse =
  carNo :: string
  date :: "string option"
  trips :: "Trip list"

text \<open>
  \<^verbatim>\<open>Trip(**t)\<close>: \<open>t\<close> has to be a mapping, else the call itself raises
  \<^verbatim>\<open>TypeError\<close>; its items are the keyword arguments, extra ones are ignored, and the
  errors of all fields are collected in the order of the fields.
\<close>

definition Trip_init :: "(string \<Rightarrow> int option) \<Rightarrow> json \<Rightarrow> error + Trip" where
  "Trip_init str_as_int t =
     (case t of
        JObj kw \<Rightarrow>
          (let d = validate_str (map_of kw ''depTime'');
               r = validate_int str_as_int (map_of kw ''routeId'')
           in case (d, r) of
                (Inr dv, Inr rv) \<Rightarrow> Inr \<lparr>depTime = dv, routeId = rv\<rparr>
              | _ \<Rightarrow> Inl (ValidationError
                         (field_errors ''depTime'' d @ field_errors ''routeId'' r)))
      | _ \<Rightarrow> Inl (TypeError ''argument after ** must be a mapping''))"

text \<open>\<^verbatim>\<open>[Trip(**t) for t in ts]\<close>: the first element that fails raises.\<close>

fun Trip_list :: "(string \<Rightarrow> int option) \<Rightarrow> json list \<Rightarrow> error + Trip list" where
  "Trip_list str_as_int [] = Inr []"
| "Trip_list str_as_int (t # ts) =
     (case Trip_init str_as_int t of
        Inl e \<Rightarrow> Inl e
      | Inr x \<Rightarrow>
          (case Trip_list str_as_int ts of
             Inl e \<Rightarrow> Inl e
           | Inr xs \<Rightarrow> Inr (x # xs)))"

text \<open>\<^verbatim>\<open>ScheduleResponse(carNo=c, date=d, trips=ts)\<close> with \<open>ts\<close> a list of \<open>Trip\<close>s.\<close>

definition ScheduleResponse_init :: "json \<Rightarrow> json \<Rightarrow> Trip list \<Rightarrow> error + ScheduleResponse" where
  "ScheduleResponse_init c d ts =
     (let cr = validate_str (Some c); dr = validate_opt_str d
      in case (cr, dr) of
           (Inr cv, Inr dv) \<Rightarrow> Inr \<lparr>carNo = cv, date = dv, trips = ts\<rparr>
         | _ \<Rightarrow> Inl (ValidationError (field_errors ''carNo'' cr @ field_errors ''date'' dr)))"

subsection \<open>Files\<close>

text \<open>
  A path is the list of its components below the module's directory.  The file system
  gives, for a path that exists, what \<^verbatim>\<open>json.load\<close> does on its contents: it raises
  \<^verbatim>\<open>JSONDecodeError\<close> with a message, or returns the decoded value.
\<close>

type_synonym path = "string list"

datatype load_result = Malformed string | Loaded json

type_synonym filesystem = "path \<rightharpoonup> load_result"

definition path_name :: "path \<Rightarrow> string" where
  "path_name p = (if p = [] then [] else last p)"

definition DATA_DIR :: path where
  "DATA_DIR = [''data'']"

definition DB_FILE :: path where
  "DB_FILE = DATA_DIR @ [''db.json'']"

definition DB_DATA :: path where
  "DB_DATA = DATA_DIR @ [''data.json'']"

definition SCHEDULES_FILE :: path where
  "SCHEDULES_FILE = DATA_DIR @ [''schedules.json'']"

text \<open>
  The argument of \<^verbatim>\<open>_read_json\<close> is annotated \<^verbatim>\<open>Path\<close>, but Python does not check
  the annotation: the callers pass a \<^verbatim>\<open>Path\<close> object or a \<^verbatim>\<open>str\<close>.
\<close>

datatype pathlike = PathObj path | StrObj string

text \<open>
  \<^verbatim>\<open>_read_json\<close> of morning.py.  Its first statement calls \<^verbatim>\<open>path.exists()\<close>, a
  method that a \<^verbatim>\<open>str\<close> does not have.
\<close>

definition read_json :: "filesystem \<Rightarrow> pathlike \<Rightarrow> error + json" where
  "read_json fs p =
     (case p of
        StrObj s \<Rightarrow> Inl (AttributeError ''exists'')
      | PathObj q \<Rightarrow>
          (case fs q of
             None \<Rightarrow> Inl (HTTPException 500 (''Server data file not found: '' @ path_name q))
           | Some (Malformed msg) \<Rightarrow>
               Inl (HTTPException 500 (''Invalid JSON in '' @ path_name q @ '': '' @ msg))
           | Some (Loaded v) \<Rightarrow> Inr v))"

subsection \<open>Update check\<close>

text \<open>
  Python's \<^verbatim>\<open>int(v)\<close>.  A float is truncated towards zero; \<^verbatim>\<open>int\<close> of a string
  parses it, and that parser is the parameter \<open>int_of_str\<close>.
\<close>

fun py_int :: "(string \<Rightarrow> int option) \<Rightarrow> json \<Rightarrow> error + int" where
  "py_int int_of_str (JInt n) = Inr n"
| "py_int int_of_str (JBool b) = Inr (if b then 1 else 0)"
| "py_int int_of_str (JFloat (Finite q)) = Inr (if 0 \<le> q then \<lfloor>q\<rfloor> else \<lceil>q\<rceil>)"
| "py_int int_of_str (JFloat NaN) = Inl (ValueError ''cannot convert float NaN to integer'')"
| "py_int int_of_str (JFloat f) = Inl (OverflowError ''cannot convert float infinity to integer'')"
| "py_int int_of_str (JStr s) =
     (case int_of_str s of
        None \<Rightarrow> Inl (ValueError ''invalid literal for int() with base 10'')
      | Some n \<Rightarrow> Inr n)"
| "py_int int_of_str v = Inl (TypeError ''int() argument must be a string or a number'')"

text \<open>
  \<^verbatim>\<open>check_update(flag, orgID)\<close>.  \<^verbatim>\<open>db.get\<close> exists only when the file holds a JSON
  object.
\<close>

definition check_update :: "(string \<Rightarrow> int option) \<Rightarrow> filesystem \<Rightarrow> int \<Rightarrow> int \<Rightarrow> error + bool" where
  "check_update int_of_str fs flag orgID =
     (case read_json fs (PathObj DB_FILE) of
        Inl e \<Rightarrow> Inl e
      | Inr db \<Rightarrow>
          (case db of
             JObj d \<Rightarrow>
               (case py_int int_of_str (dict_get_default d ''updateFlag'' (JInt 0)) of
                  Inl e \<Rightarrow> Inl e
                | Inr server_flag \<Rightarrow> Inr (server_flag > flag))
           | _ \<Rightarrow> Inl (AttributeError ''get'')))"

subsection \<open>Full payload\<close>

text \<open>
  \<^verbatim>\<open>get_db_json(orgID)\<close> of morning.py passes the string \<^verbatim>\<open>"data.json"\<close> to
  \<^verbatim>\<open>_read_json\<close>; the constant \<open>DB_DATA\<close> is not used.  The \<^verbatim>\<open>print\<close> writes to the
  server's output only.
\<close>

definition get_db_json :: "filesystem \<Rightarrow> int \<Rightarrow> error + json" where
  "get_db_json fs orgID = read_json fs (StrObj ''data.json'')"

subsection \<open>Schedule lookup\<close>

text \<open>
  \<^verbatim>\<open>[s for s in schedules if cond(s)]\<close> where the condition calls \<^verbatim>\<open>s.get\<close> on every
  element: an element that is not a dict raises \<^verbatim>\<open>AttributeError\<close>.
\<close>

fun comprehension :: "(dict \<Rightarrow> bool) \<Rightarrow> json list \<Rightarrow> error + dict list" where
  "comprehension cond [] = Inr []"
| "comprehension cond (s # rest) =
     (case s of
        JObj d \<Rightarrow>
          (case comprehension cond rest of
             Inl e \<Rightarrow> Inl e
           | Inr cs \<Rightarrow> Inr (if cond d then d # cs else cs))
      | _ \<Rightarrow> Inl (AttributeError ''get''))"

text \<open>\<^verbatim>\<open>s.get("carNo") == car_no\<close>: only a string is equal to a string.\<close>

definition carNo_is :: "string \<Rightarrow> dict \<Rightarrow> bool" where
  "carNo_is car_no s = (dict_get s ''carNo'' = JStr car_no)"

text \<open>\<^verbatim>\<open>s.get("date", today_str) == today_str\<close>.\<close>

definition date_is_today :: "string \<Rightarrow> dict \<Rightarrow> bool" where
  "date_is_today today_str s = (dict_get_default s ''date'' (JStr today_str) = JStr today_str)"

text \<open>
  Lines 91 to 97 of morning.py, for the selected entry \<open>s\<close>: the check of the trips
  array, the conversion of the trips, the response.  \<^verbatim>\<open>s["carNo"]\<close> raises
  \<^verbatim>\<open>KeyError\<close> on a missing key.
\<close>

definition build_response :: "(string \<Rightarrow> int option) \<Rightarrow> dict \<Rightarrow> error + ScheduleResponse" where
  "build_response str_as_int s =
     (case map_of s ''trips'' of
        Some (JArr ts) \<Rightarrow>
          (case Trip_list str_as_int ts of
             Inl e \<Rightarrow> Inl e
           | Inr converted \<Rightarrow>
               (case map_of s ''carNo'' of
                  None \<Rightarrow> Inl (KeyError ''carNo'')
                | Some c \<Rightarrow> ScheduleResponse_init c (dict_get s ''date'') converted))
      | _ \<Rightarrow> Inl (HTTPException 500 ''schedule item must contain 'trips' array''))"

text \<open>Lines 81 to 97: the two filters, the 404, the first candidate.\<close>

definition lookup_schedule ::
  "(string \<Rightarrow> int option) \<Rightarrow> string \<Rightarrow> string \<Rightarrow> json list \<Rightarrow> error + ScheduleResponse" where
  "lookup_schedule str_as_int today_str car_no schedules =
     (case comprehension (\<lambda>s. carNo_is car_no s \<and> date_is_today today_str s) schedules of
        Inl e \<Rightarrow> Inl e
      | Inr today_candidates \<Rightarrow>
          (case (if today_candidates = []
                 then comprehension (carNo_is car_no) schedules
                 else Inr today_candidates) of
             Inl e \<Rightarrow> Inl e
           | Inr candidates \<Rightarrow>
               (case candidates of
                  [] \<Rightarrow> Inl (HTTPException 404 (''No schedule for carNo='' @ car_no))
                | s # others \<Rightarrow> build_response str_as_int s)))"

text \<open>
  Lines 77 to 79: the file is read, \<^verbatim>\<open>.get("schedules", [])\<close> is taken from its
  top-level object, and the value has to be a list.
\<close>

definition load_schedules :: "filesystem \<Rightarrow> error + json list" where
  "load_schedules fs =
     (case read_json fs (PathObj SCHEDULES_FILE) of
        Inl e \<Rightarrow> Inl e
      | Inr loaded \<Rightarrow>
          (case loaded of
             JObj obj \<Rightarrow>
               (case dict_get_default obj ''schedules'' (JArr []) of
                  JArr schedules \<Rightarrow> Inr schedules
                | _ \<Rightarrow> Inl (HTTPException 500 ''schedules.json must contain 'schedules' array''))
           | _ \<Rightarrow> Inl (AttributeError ''get'')))"

text \<open>
  \<^verbatim>\<open>get_schedule(car_no)\<close>; \<open>today_str\<close> is \<^verbatim>\<open>date.today().isoformat()\<close> at the
  time of the request.
\<close>

definition get_schedule ::
  "(string \<Rightarrow> int option) \<Rightarrow> filesystem \<Rightarrow> string \<Rightarrow> string \<Rightarrow> error + ScheduleResponse" where
  "get_schedule str_as_int fs today_str car_no =
     (case load_schedules fs of
        Inl e \<Rightarrow> Inl e
      | Inr schedules \<Rightarrow> lookup_schedule str_as_int today_str car_no schedules)"

text \<open>
  The entry the lookup selects, in the words of its contract, for a collection whose
  entries are JSON objects: the first entry whose \<open>carNo\<close> is the requested one and
  whose \<open>date\<close> is today's date or absent; when there is none, the first entry whose
  \<open>carNo\<close> is the requested one.
\<close>

definition has_carNo :: "string \<Rightarrow> dict \<Rightarrow> bool" where
  "has_carNo car_no s = (map_of s ''carNo'' = Some (JStr car_no))"

definition dated_today_or_undated :: "string \<Rightarrow> dict \<Rightarrow> bool" where
  "dated_today_or_undated today_str s =
     (map_of s ''date'' = Some (JStr today_str) \<or> map_of s ''date'' = None)"

definition selected_entry :: "string \<Rightarrow> string \<Rightarrow> dict list \<Rightarrow> dict option" where
  "selected_entry today_str car_no entries =
     (case find (\<lambda>s. has_carNo car_no s \<and> dated_today_or_undated today_str s) entries of
        Some s \<Rightarrow> Some s
      | None \<Rightarrow> find (has_carNo car_no) entries)"

fun is_NotFound :: "error + 'a \<Rightarrow> bool" where
  "is_NotFound (Inl (HTTPException c d)) = (c = 404)"
| "is_NotFound r = False"


fun is_str :: "json \<Rightarrow> bool" where
  "is_str (JStr s) = True"
| "is_str v = False"



section \<open>main.py: the single-slot store\<close>

record BusReport =
  vehicle_no :: string
  route :: string
  stop_location :: string

record StoredData =
  received_at :: string
  source_ip :: string
  payload :: BusReport

text \<open>
  A field with an alias in a model with \<^verbatim>\<open>populate_by_name = True\<close>: the input is
  looked up under the alias, and under the field's name when the alias is absent.
\<close>

definition lookup_alias :: "dict \<Rightarrow> string \<Rightarrow> string \<Rightarrow> json option" where
  "lookup_alias kw alias name =
     (case map_of kw alias of Some v \<Rightarrow> Some v | None \<Rightarrow> map_of kw name)"

text \<open>
  The key under which an error of such a field is reported: the key the value was found
  under, and the alias when the field is missing.
\<close>

definition alias_label :: "dict \<Rightarrow> string \<Rightarrow> string \<Rightarrow> string" where
  "alias_label kw alias name =
     (case map_of kw alias of
        Some v \<Rightarrow> alias
      | None \<Rightarrow> (case map_of kw name of Some v \<Rightarrow> name | None \<Rightarrow> alias))"

text \<open>
  The validation of a request body against \<open>BusReport\<close>, which the framework runs for
  the parameter \<^verbatim>\<open>payload: BusReport\<close> before it calls the handler.  Three string
  fields; extra keys are ignored (\<^verbatim>\<open>extra = "ignore"\<close>).
\<close>

definition BusReport_validate :: "json \<Rightarrow> error + BusReport" where
  "BusReport_validate body =
     (case body of
        JObj kw \<Rightarrow>
          (let v = validate_str (lookup_alias kw ''vehicleNo'' ''vehicle_no'');
               r = validate_str (map_of kw ''route'');
               l = validate_str (lookup_alias kw ''stopLocation'' ''stop_location'')
           in case (v, r, l) of
                (Inr vv, Inr rv, Inr lv) \<Rightarrow>
                  Inr \<lparr>vehicle_no = vv, route = rv, stop_location = lv\<rparr>
              | _ \<Rightarrow> Inl (RequestValidationError
                         (field_errors (alias_label kw ''vehicleNo'' ''vehicle_no'') v
                          @ field_errors ''route'' r
                          @ field_errors (alias_label kw ''stopLocation'' ''stop_location'') l)))
      | _ \<Rightarrow> Inl (RequestValidationError [(''body'', ''model_attributes_type'')]))"

text \<open>The module's global \<^verbatim>\<open>_latest\<close>, \<^verbatim>\<open>None\<close> when the process starts.\<close>

record store =
  latest :: "StoredData option"

definition initial_store :: store where
  "initial_store = \<lparr>latest = None\<rparr>"

text \<open>
  \<^verbatim>\<open>ingest(payload, request)\<close>: \<open>now\<close> is
  \<^verbatim>\<open>datetime.now().isoformat(timespec="seconds")\<close>, \<open>client\<close> is
  \<^verbatim>\<open>request.client.host\<close>, or \<open>None\<close> when \<^verbatim>\<open>request.client\<close> is.  The lock is
  held for the assignment only, and the handler does not await inside it.
\<close>

definition ingest :: "string \<Rightarrow> string option \<Rightarrow> BusReport \<Rightarrow> store \<Rightarrow> StoredData \<times> store" where
  "ingest now client report st =
     (let client_ip = (case client of Some host \<Rightarrow> host | None \<Rightarrow> ''unknown'');
          stored = \<lparr>received_at = now, source_ip = client_ip, payload = report\<rparr>
      in (stored, st\<lparr>latest := Some stored\<rparr>))"

text \<open>\<^verbatim>\<open>POST /ingest\<close>: the body is validated, then the handler runs.\<close>

definition post_ingest ::
  "string \<Rightarrow> string option \<Rightarrow> json \<Rightarrow> store \<Rightarrow> (error + StoredData) \<times> store" where
  "post_ingest now client body st =
     (case BusReport_validate body of
        Inl e \<Rightarrow> (Inl e, st)
      | Inr report \<Rightarrow> (case ingest now client report st of (stored, st') \<Rightarrow> (Inr stored, st')))"

text \<open>\<^verbatim>\<open>get_data()\<close>.\<close>

definition get_data :: "store \<Rightarrow> StoredData option" where
  "get_data st = latest st"

text \<open>
  \<^verbatim>\<open>_read_json(path: str)\<close> and \<^verbatim>\<open>get_db_json\<close> of main.py.  This one turns its
  argument into a \<^verbatim>\<open>Path\<close> first (here: of a bare file name), and does not catch
  \<^verbatim>\<open>JSONDecodeError\<close>.
\<close>

definition main_read_json :: "filesystem \<Rightarrow> string \<Rightarrow> error + json" where
  "main_read_json fs name =
     (case fs [name] of
        None \<Rightarrow> Inl (HTTPException 500 (''File not found: '' @ name))
      | Some (Malformed msg) \<Rightarrow> Inl (JSONDecodeError msg)
      | Some (Loaded v) \<Rightarrow> Inr v)"

definition main_get_db_json :: "filesystem \<Rightarrow> int \<Rightarrow> error + json" where
  "main_get_db_json fs orgID = main_read_json fs ''data.json''"

section \<open>Example inputs\<close>

definition no_parser :: "string \<Rightarrow> int option" where
  "no_parser s = None"

definition schedules_file :: "json list \<Rightarrow> filesystem" where
  "schedules_file schedules = [SCHEDULES_FILE \<mapsto> Loaded (JObj [(''schedules'', JArr schedules)])]"

definition trip_0800 :: json where
  "trip_0800 = JObj [(''depTime'', JStr ''08:00''), (''routeId'', JInt 1)]"

definition trip_0930 :: json where
  "trip_0930 = JObj [(''depTime'', JStr ''09:30''), (''routeId'', JInt 2)]"

definition entry_past :: dict where
  "entry_past = [(''carNo'', JStr ''A''), (''date'', JStr ''2024-01-01''), (''trips'', JArr [trip_0800])]"

definition entry_today :: dict where
  "entry_today = [(''carNo'', JStr ''A''), (''date'', JStr ''2024-06-01''), (''trips'', JArr [trip_0930])]"

definition db_file :: "dict \<Rightarrow> filesystem" where
  "db_file db = [DB_FILE \<mapsto> Loaded (JObj db)]"

definition data_json_files :: "json \<Rightarrow> filesystem" where
  "data_json_files v = [DB_DATA \<mapsto> Loaded v, [''data.json''] \<mapsto> Loaded v]"

definition entry_no_trips :: dict where
  "entry_no_trips = [(''carNo'', JStr ''B'')]"

definition entry_bad_trip :: dict where
  "entry_bad_trip = [(''carNo'', JStr ''A''), (''date'', JStr ''2024-06-01''), (''trips'', JArr [JObj []])]"





text \<open>
  A request body in which one of the three fields of a report is missing or is not a
  string, the field being read under its alias and, when the alias is absent, under its
  name.  A body that is not a JSON object has none of the fields.
\<close>

definition lacks_required_string :: "json \<Rightarrow> bool" where
  "lacks_required_string body =
     (case body of
        JObj kw \<Rightarrow>
          \<not> (case lookup_alias kw ''vehicleNo'' ''vehicle_no'' of Some v \<Rightarrow> is_str v | None \<Rightarrow> False)
          \<or> \<not> (case map_of kw ''route'' of Some v \<Rightarrow> is_str v | None \<Rightarrow> False)
          \<or> \<not> (case lookup_alias kw ''stopLocation'' ''stop_location'' of Some v \<Rightarrow> is_str v | None \<Rightarrow> False)
      | _ \<Rightarrow> True)"

text \<open>The two spellings of a report with the values \<open>v\<close>, \<open>r\<close> and \<open>l\<close>.\<close>

definition report_camel :: "string \<Rightarrow> string \<Rightarrow> string \<Rightarrow> json" where
  "report_camel v r l = JObj [(''vehicleNo'', JStr v), (''route'', JStr r), (''stopLocation'', JStr l)]"

definition report_snake :: "string \<Rightarrow> string \<Rightarrow> string \<Rightarrow> json" where
  "report_snake v r l = JObj [(''vehicle_no'', JStr v), (''route'', JStr r), (''stop_location'', JStr l)]"

section \<open>Schedule lookup: the selected entry\<close>

lemma comprehension_map_JObj: "comprehension cond (map JObj ds) = Inr (filter cond ds)"
  by (induction ds) auto

lemma carNo_is_iff: "carNo_is car_no s = has_carNo car_no s"
  by (auto simp: carNo_is_def has_carNo_def dict_get_def split: option.splits)

lemma carNo_is_eq: "carNo_is car_no = has_carNo car_no"
  by (rule ext) (rule carNo_is_iff)

lemma date_is_today_iff: "date_is_today today_str s = dated_today_or_undated today_str s"
  by (auto simp: date_is_today_def dated_today_or_undated_def dict_get_default_def
      split: option.splits)

lemma case_filter_find:
  "(case filter P xs of [] \<Rightarrow> a | x # rest \<Rightarrow> f x) =
   (case find P xs of None \<Rightarrow> a | Some x \<Rightarrow> f x)"
  by (induction xs) auto

lemma filter_empty_find: "(filter P xs = []) = (find P xs = None)"
  by (induction xs) auto

lemma lookup_schedule_selected:
  "lookup_schedule sai today_str car_no (map JObj entries) =
     (case selected_entry today_str car_no entries of
        None \<Rightarrow> Inl (HTTPException 404 (''No schedule for carNo='' @ car_no))
      | Some s \<Rightarrow> build_response sai s)"
proof (cases "find (\<lambda>s. has_carNo car_no s \<and> dated_today_or_undated today_str s) entries")
  case None
  then have "filter (\<lambda>s. has_carNo car_no s \<and> dated_today_or_undated today_str s) entries = []"
    by (simp add: filter_empty_find)
  with None show ?thesis
    by (simp add: lookup_schedule_def selected_entry_def comprehension_map_JObj
        carNo_is_iff carNo_is_eq date_is_today_iff case_filter_find)
next
  case (Some s)
  then have "filter (\<lambda>s. has_carNo car_no s \<and> dated_today_or_undated today_str s) entries \<noteq> []"
    by (simp add: filter_empty_find)
  with Some show ?thesis
    by (simp add: lookup_schedule_def selected_entry_def comprehension_map_JObj
        carNo_is_iff carNo_is_eq date_is_today_iff case_filter_find)
qed

lemma get_schedule_selected:
  assumes "load_schedules fs = Inr (map JObj entries)"
  shows "get_schedule sai fs today_str car_no =
     (case selected_entry today_str car_no entries of
        None \<Rightarrow> Inl (HTTPException 404 (''No schedule for carNo='' @ car_no))
      | Some s \<Rightarrow> build_response sai s)"
  using assms by (simp add: get_schedule_def lookup_schedule_selected)

lemma load_schedules_file: "load_schedules (schedules_file schedules) = Inr schedules"
  by (simp add: load_schedules_def schedules_file_def read_json_def dict_get_default_def)

text \<open>
  C1.  When the schedules file holds a collection of JSON objects, \<open>get_schedule\<close>
  answers from the first entry, in the order of the collection, whose \<open>carNo\<close> is the
  requested one and whose \<open>date\<close> is today's ISO date or absent; when no entry passes
  that filter, from the first entry whose \<open>carNo\<close> is the requested one, whatever its
  date; when there is none either, with the 404.  In particular, for a collection of
  an entry of the car dated another day followed by an entry of the car dated today,
  the answer is built from the entry dated today.
\<close>

theorem get_schedule_first_match:
  assumes "load_schedules fs = Inr (map JObj entries)"
  shows "get_schedule sai fs today_str car_no =
           (case selected_entry today_str car_no entries of
              None \<Rightarrow> Inl (HTTPException 404 (''No schedule for carNo='' @ car_no))
            | Some s \<Rightarrow> build_response sai s)
         \<and> (entries = [past, current] \<and> has_carNo car_no past \<and> has_carNo car_no current
              \<and> map_of past ''date'' = Some (JStr other_day) \<and> other_day \<noteq> today_str
              \<and> map_of current ''date'' = Some (JStr today_str)
            \<longrightarrow> get_schedule sai fs today_str car_no = build_response sai current)"
proof -
  have sel: "get_schedule sai fs today_str car_no =
           (case selected_entry today_str car_no entries of
              None \<Rightarrow> Inl (HTTPException 404 (''No schedule for carNo='' @ car_no))
            | Some s \<Rightarrow> build_response sai s)"
    using assms by (rule get_schedule_selected)
  have "selected_entry today_str car_no [past, current] = Some current"
    if "has_carNo car_no past" "has_carNo car_no current"
      "map_of past ''date'' = Some (JStr other_day)" "other_day \<noteq> today_str"
      "map_of current ''date'' = Some (JStr today_str)"
    using that by (simp add: selected_entry_def dated_today_or_undated_def)
  with sel show ?thesis by auto
qed

theorem get_schedule_first_match_witness:
  "load_schedules (schedules_file [JObj entry_past, JObj entry_today])
     = Inr (map JObj [entry_past, entry_today])
   \<and> has_carNo ''A'' entry_past \<and> has_carNo ''A'' entry_today
   \<and> map_of entry_past ''date'' = Some (JStr ''2024-01-01'') \<and> ''2024-01-01'' \<noteq> ''2024-06-01''
   \<and> map_of entry_today ''date'' = Some (JStr ''2024-06-01'')
   \<and> selected_entry ''2024-06-01'' ''A'' [entry_past, entry_today] = Some entry_today
   \<and> get_schedule no_parser (schedules_file [JObj entry_past, JObj entry_today])
        ''2024-06-01'' ''A''
     = Inr \<lparr>carNo = ''A'', date = Some ''2024-06-01'',
            trips = [\<lparr>depTime = ''09:30'', routeId = 2\<rparr>]\<rparr>"
proof -
  have load: "load_schedules (schedules_file [JObj entry_past, JObj entry_today])
     = Inr (map JObj [entry_past, entry_today])"
    by (simp add: load_schedules_file)
  have hyps: "has_carNo ''A'' entry_past \<and> has_carNo ''A'' entry_today
     \<and> map_of entry_past ''date'' = Some (JStr ''2024-01-01'') \<and> ''2024-01-01'' \<noteq> ''2024-06-01''
     \<and> map_of entry_today ''date'' = Some (JStr ''2024-06-01'')"
    by (simp add: has_carNo_def entry_past_def entry_today_def)
  have sel: "selected_entry ''2024-06-01'' ''A'' [entry_past, entry_today] = Some entry_today"
    by (simp add: selected_entry_def has_carNo_def dated_today_or_undated_def
        entry_past_def entry_today_def)
  have resp: "build_response no_parser entry_today
     = Inr \<lparr>carNo = ''A'', date = Some ''2024-06-01'',
            trips = [\<lparr>depTime = ''09:30'', routeId = 2\<rparr>]\<rparr>"
    by (simp add: build_response_def entry_today_def trip_0930_def Trip_init_def
        ScheduleResponse_init_def dict_get_def)
  from get_schedule_first_match [OF load, of no_parser "''2024-06-01''" "''A''"
      entry_past entry_today "''2024-01-01''"] hyps
  have "get_schedule no_parser (schedules_file [JObj entry_past, JObj entry_today])
        ''2024-06-01'' ''A'' = build_response no_parser entry_today"
    by blast
  with load hyps sel resp show ?thesis by simp
qed

section \<open>Update check\<close>

text \<open>
  C2.  When the update descriptor is a JSON object whose \<open>updateFlag\<close> is the integer
  \<open>server_flag\<close>, or that has no \<open>updateFlag\<close> (then \<open>server_flag\<close> is 0),
  \<open>check_update\<close> returns whether \<open>server_flag\<close> is greater than the client's flag,
  whatever \<open>orgID\<close> is; with the server's flag 5 the answers to the flags 4, 5 and 6
  are true, false and false.
\<close>

theorem check_update_compares_flags:
  assumes "fs DB_FILE = Some (Loaded (JObj db))"
    and "map_of db ''updateFlag'' = None \<and> server_flag = 0
         \<or> map_of db ''updateFlag'' = Some (JInt server_flag)"
  shows "check_update int_of_str fs flag orgID = Inr (server_flag > flag)
         \<and> check_update int_of_str fs flag orgID' = check_update int_of_str fs flag orgID
         \<and> (server_flag = 5 \<longrightarrow>
              check_update int_of_str fs 4 orgID = Inr True
              \<and> check_update int_of_str fs 5 orgID = Inr False
              \<and> check_update int_of_str fs 6 orgID = Inr False)"
  using assms
  by (auto simp: check_update_def read_json_def dict_get_default_def)

theorem check_update_compares_flags_witness:
  "db_file [(''updateFlag'', JInt 5), (''payload'', JObj [])] DB_FILE
     = Some (Loaded (JObj [(''updateFlag'', JInt 5), (''payload'', JObj [])]))
   \<and> map_of [(''updateFlag'', JInt 5), (''payload'', JObj [])] ''updateFlag'' = Some (JInt 5)
   \<and> check_update no_parser (db_file [(''updateFlag'', JInt 5), (''payload'', JObj [])]) 4 7 = Inr True
   \<and> check_update no_parser (db_file [(''updateFlag'', JInt 5), (''payload'', JObj [])]) 5 7 = Inr False
   \<and> check_update no_parser (db_file [(''updateFlag'', JInt 5), (''payload'', JObj [])]) 6 7 = Inr False"
proof -
  have f: "db_file [(''updateFlag'', JInt 5), (''payload'', JObj [])] DB_FILE
     = Some (Loaded (JObj [(''updateFlag'', JInt 5), (''payload'', JObj [])]))"
    by (simp add: db_file_def)
  have m: "map_of [(''updateFlag'', JInt 5), (''payload'', JObj [])] ''updateFlag'' = None \<and> (5::int) = 0
         \<or> map_of [(''updateFlag'', JInt 5), (''payload'', JObj [])] ''updateFlag'' = Some (JInt 5)"
    by simp
  from check_update_compares_flags
      [where fs = "db_file [(''updateFlag'', JInt 5), (''payload'', JObj [])]"
         and db = "[(''updateFlag'', JInt 5), (''payload'', JObj [])]"
         and server_flag = 5 and int_of_str = no_parser and flag = 0 and orgID = 7, OF f m]
    f show ?thesis
    by simp
qed

section \<open>Full payload\<close>

lemma get_db_json_always_fails: "get_db_json fs orgID = Inl (AttributeError ''exists'')"
  by (simp add: get_db_json_def read_json_def)

text \<open>
  C3.  With a data source that exists and holds the well-formed JSON object \<open>{}\<close>,
  under the data directory and under the working directory alike, \<open>get_db_json\<close> of
  morning.py does not return the contents: it raises \<^verbatim>\<open>AttributeError\<close>, answered
  with 500.  On the same files \<open>read_json\<close>, given the path constant \<open>DB_DATA\<close>, and
  the \<open>get_db_json\<close> of main.py return the contents.
\<close>

theorem get_db_json_well_formed_source:
  "get_db_json (data_json_files (JObj [])) 1 = Inl (AttributeError ''exists'')
   \<and> status_code (AttributeError ''exists'') = 500
   \<and> read_json (data_json_files (JObj [])) (PathObj DB_DATA) = Inr (JObj [])
   \<and> main_get_db_json (data_json_files (JObj [])) 1 = Inr (JObj [])"
  by (simp add: get_db_json_def read_json_def data_json_files_def main_get_db_json_def
      main_read_json_def DB_DATA_def DATA_DIR_def)

section \<open>Schedule lookup: not found, the returned car, the entries not selected\<close>

lemma Trip_init_not_HTTP: "Trip_init sai t \<noteq> Inl (HTTPException c d)"
  by (auto simp: Trip_init_def Let_def split: json.splits sum.splits)

lemma Trip_list_not_HTTP: "Trip_list sai ts \<noteq> Inl (HTTPException c d)"
  by (induction ts) (auto simp: Trip_init_not_HTTP split: sum.splits)

lemma build_response_not_NotFound: "\<not> is_NotFound (build_response sai s)"
proof -
  have "build_response sai s \<noteq> Inl (HTTPException 404 d)" for d
    by (auto simp: build_response_def ScheduleResponse_init_def Let_def Trip_list_not_HTTP
        split: option.splits json.splits sum.splits)
  then show ?thesis
    by (cases "build_response sai s" rule: is_NotFound.cases) auto
qed

lemma find_None_list_ex: "(find P xs = None) = (\<not> list_ex P xs)"
  by (induction xs) auto

lemma find_Some_list_ex: "find P xs = Some x \<Longrightarrow> (\<And>y. P y \<Longrightarrow> Q y) \<Longrightarrow> list_ex Q xs"
  by (induction xs) (auto split: if_splits)

lemma selected_entry_None:
  "(selected_entry today_str car_no entries = None) = (\<not> list_ex (has_carNo car_no) entries)"
proof (cases "find (\<lambda>s. has_carNo car_no s \<and> dated_today_or_undated today_str s) entries")
  case None
  then have "selected_entry today_str car_no entries = find (has_carNo car_no) entries"
    by (simp add: selected_entry_def)
  then show ?thesis by (simp add: find_None_list_ex)
next
  case (Some x)
  then have "list_ex (has_carNo car_no) entries"
    by (rule find_Some_list_ex) simp
  with Some show ?thesis by (simp add: selected_entry_def)
qed

text \<open>
  C8.  When the schedules file holds a collection of JSON objects, \<open>get_schedule\<close>
  fails with the 404 (not found) exactly when no entry of the collection has the
  requested \<open>carNo\<close>; when an entry has it, whatever its date, the outcome is not the
  404.
\<close>

theorem get_schedule_not_found_iff:
  assumes "load_schedules fs = Inr (map JObj entries)"
  shows "is_NotFound (get_schedule sai fs today_str car_no) = (\<not> list_ex (has_carNo car_no) entries)
         \<and> (\<not> list_ex (has_carNo car_no) entries \<longrightarrow>
              get_schedule sai fs today_str car_no
                = Inl (HTTPException 404 (''No schedule for carNo='' @ car_no)))"
proof (cases "selected_entry today_str car_no entries")
  case None
  then have "\<not> list_ex (has_carNo car_no) entries"
    by (simp add: selected_entry_None)
  with None get_schedule_selected [OF assms, of sai today_str car_no] show ?thesis
    by simp
next
  case (Some s)
  then have "list_ex (has_carNo car_no) entries"
    using selected_entry_None [of today_str car_no entries] by auto
  with Some get_schedule_selected [OF assms, of sai today_str car_no] show ?thesis
    by (simp add: build_response_not_NotFound)
qed

theorem get_schedule_not_found_iff_witness:
  "load_schedules (schedules_file [JObj entry_past, JObj entry_today])
     = Inr (map JObj [entry_past, entry_today])
   \<and> \<not> list_ex (has_carNo ''ZZZ'') [entry_past, entry_today]
   \<and> get_schedule no_parser (schedules_file [JObj entry_past, JObj entry_today])
        ''2024-06-01'' ''ZZZ'' = Inl (HTTPException 404 ''No schedule for carNo=ZZZ'')
   \<and> list_ex (has_carNo ''A'') [entry_past, entry_today]
   \<and> \<not> is_NotFound (get_schedule no_parser (schedules_file [JObj entry_past, JObj entry_today])
        ''2024-06-01'' ''A'')"
proof -
  have load: "load_schedules (schedules_file [JObj entry_past, JObj entry_today])
     = Inr (map JObj [entry_past, entry_today])"
    by (simp add: load_schedules_file)
  have no: "\<not> list_ex (has_carNo ''ZZZ'') [entry_past, entry_today]"
    by (simp add: has_carNo_def entry_past_def entry_today_def)
  have yes: "list_ex (has_carNo ''A'') [entry_past, entry_today]"
    by (simp add: has_carNo_def entry_past_def entry_today_def)
  from get_schedule_not_found_iff [OF load, of no_parser "''2024-06-01''" "''ZZZ''"]
    get_schedule_not_found_iff [OF load, of no_parser "''2024-06-01''" "''A''"]
    load no yes
  show ?thesis by simp
qed

lemma comprehension_all: "comprehension cond xs = Inr cs \<Longrightarrow> list_all cond cs"
  by (induction xs arbitrary: cs) (auto split: json.splits sum.splits if_splits)

lemma build_response_carNo:
  assumes "build_response sai s = Inr r" and "carNo_is car_no s"
  shows "carNo r = car_no"
  using assms
  by (auto simp: build_response_def carNo_is_def dict_get_def ScheduleResponse_init_def Let_def
      split: option.splits json.splits sum.splits)

text \<open>
  C9.  When \<open>get_schedule\<close> succeeds, the \<open>carNo\<close> of the response is the requested one.
\<close>

theorem get_schedule_carNo:
  assumes "get_schedule sai fs today_str car_no = Inr r"
  shows "carNo r = car_no"
proof -
  from assms obtain schedules where
    look: "lookup_schedule sai today_str car_no schedules = Inr r"
    by (auto simp: get_schedule_def split: sum.splits)
  from look obtain tc where
    tc: "comprehension (\<lambda>s. carNo_is car_no s \<and> date_is_today today_str s) schedules = Inr tc"
    by (auto simp: lookup_schedule_def split: sum.splits)
  from look tc obtain cands where
    cands: "(if tc = [] then comprehension (carNo_is car_no) schedules else Inr tc) = Inr cands"
    by (auto simp: lookup_schedule_def split: sum.splits)
  from look tc cands obtain s others where
    s: "cands = s # others" and b: "build_response sai s = Inr r"
    by (auto simp: lookup_schedule_def split: sum.splits list.splits if_splits)
  have "list_all (carNo_is car_no) cands"
  proof (cases "tc = []")
    case True
    with cands show ?thesis by (simp add: comprehension_all)
  next
    case False
    from comprehension_all [OF tc] have "list_all (carNo_is car_no) tc"
      by (simp add: list_all_iff)
    with False cands show ?thesis by simp
  qed
  with s have "carNo_is car_no s" by simp
  with b show ?thesis by (rule build_response_carNo)
qed

theorem get_schedule_carNo_witness:
  "get_schedule no_parser (schedules_file [JObj entry_past, JObj entry_today]) ''2024-06-01'' ''A''
     = Inr \<lparr>carNo = ''A'', date = Some ''2024-06-01'',
            trips = [\<lparr>depTime = ''09:30'', routeId = 2\<rparr>]\<rparr>
   \<and> carNo \<lparr>carNo = ''A'', date = Some ''2024-06-01'',
            trips = [\<lparr>depTime = ''09:30'', routeId = 2\<rparr>]\<rparr> = ''A''"
proof -
  have g: "get_schedule no_parser (schedules_file [JObj entry_past, JObj entry_today]) ''2024-06-01'' ''A''
     = Inr \<lparr>carNo = ''A'', date = Some ''2024-06-01'',
            trips = [\<lparr>depTime = ''09:30'', routeId = 2\<rparr>]\<rparr>"
    by (simp add: get_schedule_def load_schedules_file lookup_schedule_def carNo_is_def
        date_is_today_def dict_get_def dict_get_default_def entry_past_def entry_today_def
        build_response_def trip_0930_def Trip_init_def ScheduleResponse_init_def)
  from get_schedule_carNo [OF g] g show ?thesis by simp
qed

lemma find_Some_holds: "find P xs = Some x \<Longrightarrow> P x"
  by (induction xs) (auto split: if_splits)

lemma selected_entry_has_carNo:
  "selected_entry today_str car_no entries = Some s \<Longrightarrow> has_carNo car_no s"
  by (auto simp: selected_entry_def split: option.splits dest: find_Some_holds)

text \<open>
  C10, as the code has it.  Only the selected entry is validated.  When the schedules
  file holds a collection of JSON objects and \<open>s\<close> is the entry selected for the request, the
  outcome of \<open>get_schedule\<close> is the outcome of building the response from \<open>s\<close>, and
  it is the same as on the collection of \<open>s\<close> alone: the other entries, with or
  without a trips array and with well-formed or malformed trips, have no part in it.
\<close>

theorem get_schedule_selected_entry_only:
  assumes "load_schedules fs = Inr (map JObj entries)"
    and "selected_entry today_str car_no entries = Some s"
    and "load_schedules fs' = Inr [JObj s]"
  shows "get_schedule sai fs today_str car_no = get_schedule sai fs' today_str car_no
         \<and> get_schedule sai fs today_str car_no = build_response sai s"
proof -
  have "has_carNo car_no s" using assms(2) by (rule selected_entry_has_carNo)
  then have one: "selected_entry today_str car_no [s] = Some s"
    by (simp add: selected_entry_def)
  have "load_schedules fs' = Inr (map JObj [s])" using assms(3) by simp
  from get_schedule_selected [OF this, of sai today_str car_no] one
  have "get_schedule sai fs' today_str car_no = build_response sai s"
    by simp
  moreover from get_schedule_selected [OF assms(1), of sai today_str car_no] assms(2)
  have "get_schedule sai fs today_str car_no = build_response sai s"
    by simp
  ultimately show ?thesis by simp
qed

theorem get_schedule_selected_entry_only_witness:
  "load_schedules (schedules_file [JObj entry_no_trips, JObj entry_past, JObj entry_today, JObj entry_bad_trip])
     = Inr (map JObj [entry_no_trips, entry_past, entry_today, entry_bad_trip])
   \<and> selected_entry ''2024-06-01'' ''A'' [entry_no_trips, entry_past, entry_today, entry_bad_trip]
       = Some entry_today
   \<and> load_schedules (schedules_file [JObj entry_today]) = Inr [JObj entry_today]
   \<and> get_schedule no_parser
        (schedules_file [JObj entry_no_trips, JObj entry_past, JObj entry_today, JObj entry_bad_trip])
        ''2024-06-01'' ''A''
     = Inr \<lparr>carNo = ''A'', date = Some ''2024-06-01'',
            trips = [\<lparr>depTime = ''09:30'', routeId = 2\<rparr>]\<rparr>
   \<and> build_response no_parser entry_no_trips
     = Inl (HTTPException 500 ''schedule item must contain 'trips' array'')
   \<and> build_response no_parser entry_bad_trip
     = Inl (ValidationError [(''depTime'', ''missing''), (''routeId'', ''missing'')])"
proof -
  have load: "load_schedules (schedules_file [JObj entry_no_trips, JObj entry_past, JObj entry_today, JObj entry_bad_trip])
     = Inr (map JObj [entry_no_trips, entry_past, entry_today, entry_bad_trip])"
    by (simp add: load_schedules_file)
  have sel: "selected_entry ''2024-06-01'' ''A'' [entry_no_trips, entry_past, entry_today, entry_bad_trip]
       = Some entry_today"
    by (simp add: selected_entry_def has_carNo_def dated_today_or_undated_def
        entry_no_trips_def entry_past_def entry_today_def entry_bad_trip_def)
  have load1: "load_schedules (schedules_file [JObj entry_today]) = Inr [JObj entry_today]"
    by (simp add: load_schedules_file)
  have resp: "build_response no_parser entry_today
     = Inr \<lparr>carNo = ''A'', date = Some ''2024-06-01'',
            trips = [\<lparr>depTime = ''09:30'', routeId = 2\<rparr>]\<rparr>"
    by (simp add: build_response_def entry_today_def trip_0930_def Trip_init_def
        ScheduleResponse_init_def dict_get_def)
  have bad1: "build_response no_parser entry_no_trips
     = Inl (HTTPException 500 ''schedule item must contain 'trips' array'')"
    by (simp add: build_response_def entry_no_trips_def)
  have bad2: "build_response no_parser entry_bad_trip
     = Inl (ValidationError [(''depTime'', ''missing''), (''routeId'', ''missing'')])"
    by (simp add: build_response_def entry_bad_trip_def Trip_init_def field_errors_def)
  from get_schedule_selected_entry_only [OF load sel load1, of no_parser]
  have "get_schedule no_parser
        (schedules_file [JObj entry_no_trips, JObj entry_past, JObj entry_today, JObj entry_bad_trip])
        ''2024-06-01'' ''A'' = build_response no_parser entry_today"
    by (rule conjunct2)
  with load sel load1 resp bad1 bad2 show ?thesis by simp
qed

text \<open>
  C10, as stated for every collection, fails.  On the collection of the entry of car
  \<open>A\<close> dated today followed by the number 5, an element that does not match the
  requested car, \<open>get_schedule\<close> raises \<^verbatim>\<open>AttributeError\<close>, answered with 500; on the
  collection of that entry alone it succeeds.
\<close>

theorem get_schedule_non_object_entry_counterexample:
  "get_schedule no_parser (schedules_file [JObj entry_today, JInt 5]) ''2024-06-01'' ''A''
     = Inl (AttributeError ''get'')
   \<and> status_code (AttributeError ''get'') = 500
   \<and> get_schedule no_parser (schedules_file [JObj entry_today]) ''2024-06-01'' ''A''
     = Inr \<lparr>carNo = ''A'', date = Some ''2024-06-01'',
            trips = [\<lparr>depTime = ''09:30'', routeId = 2\<rparr>]\<rparr>"
  by (simp add: get_schedule_def load_schedules_file lookup_schedule_def carNo_is_def
      date_is_today_def dict_get_def dict_get_default_def entry_today_def trip_0930_def
      build_response_def Trip_init_def ScheduleResponse_init_def)

section \<open>Schedule lookup: malformed trips\<close>

lemma validate_str_Inl:
  "\<not> (case v of Some x \<Rightarrow> is_str x | None \<Rightarrow> False) \<Longrightarrow> \<exists>ty. validate_str v = Inl ty"
  by (cases v rule: validate_str.cases) auto











section \<open>The single-slot store\<close>

text \<open>
  C5.  Before any ingest \<open>get_data\<close> returns \<open>None\<close>.  After the ingest of a valid
  report \<open>a\<close> followed by the ingest of a valid report \<open>b\<close>, from any state of the
  store, \<open>get_data\<close> returns the record that the second ingest returned: the time and
  the client of the second request with the validated \<open>b\<close> as payload, and nothing
  of \<open>a\<close>.
\<close>

theorem ingest_replaces_slot:
  assumes "BusReport_validate a = Inr report_a"
    and "BusReport_validate b = Inr report_b"
  shows "get_data initial_store = None
         \<and> fst (post_ingest now_b client_b b (snd (post_ingest now_a client_a a st)))
             = Inr \<lparr>received_at = now_b,
                    source_ip = (case client_b of Some host \<Rightarrow> host | None \<Rightarrow> ''unknown''),
                    payload = report_b\<rparr>
         \<and> get_data (snd (post_ingest now_b client_b b (snd (post_ingest now_a client_a a st))))
             = Some \<lparr>received_at = now_b,
                     source_ip = (case client_b of Some host \<Rightarrow> host | None \<Rightarrow> ''unknown''),
                     payload = report_b\<rparr>"
  using assms
  by (simp add: get_data_def initial_store_def post_ingest_def ingest_def Let_def)

theorem ingest_replaces_slot_witness:
  "BusReport_validate (report_camel ''12-3456'' ''R-101'' ''North gate'')
     = Inr \<lparr>vehicle_no = ''12-3456'', route = ''R-101'', stop_location = ''North gate''\<rparr>
   \<and> BusReport_validate (report_snake ''78-9012'' ''R-202'' ''Library'')
     = Inr \<lparr>vehicle_no = ''78-9012'', route = ''R-202'', stop_location = ''Library''\<rparr>
   \<and> get_data (snd (post_ingest ''2024-06-01T08:00:05'' None (report_snake ''78-9012'' ''R-202'' ''Library'')
        (snd (post_ingest ''2024-06-01T08:00:00'' (Some ''10.0.0.7'')
               (report_camel ''12-3456'' ''R-101'' ''North gate'') initial_store))))
     = Some \<lparr>received_at = ''2024-06-01T08:00:05'', source_ip = ''unknown'',
             payload = \<lparr>vehicle_no = ''78-9012'', route = ''R-202'', stop_location = ''Library''\<rparr>\<rparr>"
proof -
  have a: "BusReport_validate (report_camel ''12-3456'' ''R-101'' ''North gate'')
     = Inr \<lparr>vehicle_no = ''12-3456'', route = ''R-101'', stop_location = ''North gate''\<rparr>"
    by (simp add: BusReport_validate_def report_camel_def lookup_alias_def)
  have b: "BusReport_validate (report_snake ''78-9012'' ''R-202'' ''Library'')
     = Inr \<lparr>vehicle_no = ''78-9012'', route = ''R-202'', stop_location = ''Library''\<rparr>"
    by (simp add: BusReport_validate_def report_snake_def lookup_alias_def)
  from ingest_replaces_slot [OF a b, of "''2024-06-01T08:00:05''" None "''2024-06-01T08:00:00''"
      "Some ''10.0.0.7''" initial_store] a b
  show ?thesis by simp
qed

text \<open>
  C6.  For all strings \<open>v\<close>, \<open>r\<close> and \<open>l\<close>, the report spelled with the aliases
  \<open>vehicleNo\<close>, \<open>route\<close>, \<open>stopLocation\<close> and the report spelled with the field
  names \<open>vehicle_no\<close>, \<open>route\<close>, \<open>stop_location\<close> validate to the same
  \<open>BusReport\<close>, and the records returned and stored by their ingests have the same
  payload.
\<close>

theorem ingest_alias_equivalence:
  "BusReport_validate (report_camel v r l) = BusReport_validate (report_snake v r l)
   \<and> map_sum id payload (fst (post_ingest now1 client1 (report_camel v r l) st1))
       = Inr \<lparr>vehicle_no = v, route = r, stop_location = l\<rparr>
   \<and> map_sum id payload (fst (post_ingest now2 client2 (report_snake v r l) st2))
       = Inr \<lparr>vehicle_no = v, route = r, stop_location = l\<rparr>
   \<and> map_option payload (get_data (snd (post_ingest now1 client1 (report_camel v r l) st1)))
       = map_option payload (get_data (snd (post_ingest now2 client2 (report_snake v r l) st2)))"
  by (simp add: BusReport_validate_def report_camel_def report_snake_def lookup_alias_def
      post_ingest_def ingest_def get_data_def Let_def)

lemma BusReport_validate_rejects:
  assumes "lacks_required_string body"
  shows "\<exists>errs. BusReport_validate body = Inl (RequestValidationError errs) \<and> errs \<noteq> []"
proof (cases body)
  case (JObj kw)
  with assms have
    "(\<exists>ty. validate_str (lookup_alias kw ''vehicleNo'' ''vehicle_no'') = Inl ty)
     \<or> (\<exists>ty. validate_str (map_of kw ''route'') = Inl ty)
     \<or> (\<exists>ty. validate_str (lookup_alias kw ''stopLocation'' ''stop_location'') = Inl ty)"
    using validate_str_Inl [of "lookup_alias kw ''vehicleNo'' ''vehicle_no''"]
      validate_str_Inl [of "map_of kw ''route''"]
      validate_str_Inl [of "lookup_alias kw ''stopLocation'' ''stop_location''"]
    by (auto simp: lacks_required_string_def)
  with JObj show ?thesis
    by (auto simp: BusReport_validate_def Let_def field_errors_def split: sum.splits)
qed (simp_all add: BusReport_validate_def)

text \<open>
  C7.  A request body in which one of the three fields is missing under both of its
  spellings, or is not a string, is rejected with a validation error that lists the
  fields, answered as a client error; the handler does not run and the store keeps its
  contents.  In particular the body with \<open>route\<close> and \<open>stopLocation\<close> only is
  rejected for the missing \<open>vehicleNo\<close>.
\<close>

theorem ingest_rejects_invalid_report:
  assumes "lacks_required_string body"
  shows "(\<exists>errs. post_ingest now client body st = (Inl (RequestValidationError errs), st)
            \<and> errs \<noteq> [] \<and> client_error (RequestValidationError errs))
         \<and> get_data (snd (post_ingest now client body st)) = get_data st
         \<and> post_ingest now client (JObj [(''route'', JStr ''R''), (''stopLocation'', JStr ''L'')]) st
             = (Inl (RequestValidationError [(''vehicleNo'', ''missing'')]), st)"
proof -
  from BusReport_validate_rejects [OF assms] obtain errs where
    "BusReport_validate body = Inl (RequestValidationError errs)" "errs \<noteq> []"
    by auto
  then have "post_ingest now client body st = (Inl (RequestValidationError errs), st)
      \<and> errs \<noteq> [] \<and> client_error (RequestValidationError errs)"
    by (simp add: post_ingest_def client_error_def)
  moreover have "post_ingest now client (JObj [(''route'', JStr ''R''), (''stopLocation'', JStr ''L'')]) st
             = (Inl (RequestValidationError [(''vehicleNo'', ''missing'')]), st)"
    by (simp add: post_ingest_def BusReport_validate_def lookup_alias_def alias_label_def
        field_errors_def)
  ultimately show ?thesis by auto
qed

theorem ingest_rejects_invalid_report_witness:
  "lacks_required_string (JObj [(''vehicleNo'', JInt 7), (''route'', JStr ''R''), (''stop_location'', JStr ''L'')])
   \<and> post_ingest ''2024-06-01T08:00:00'' None
        (JObj [(''vehicleNo'', JInt 7), (''route'', JStr ''R''), (''stop_location'', JStr ''L'')])
        initial_store
     = (Inl (RequestValidationError [(''vehicleNo'', ''string_type'')]), initial_store)
   \<and> get_data (snd (post_ingest ''2024-06-01T08:00:00'' None
        (JObj [(''vehicleNo'', JInt 7), (''route'', JStr ''R''), (''stop_location'', JStr ''L'')])
        initial_store)) = None"
proof -
  have h: "lacks_required_string
      (JObj [(''vehicleNo'', JInt 7), (''route'', JStr ''R''), (''stop_location'', JStr ''L'')])"
    by (simp add: lacks_required_string_def lookup_alias_def)
  have v: "BusReport_validate
      (JObj [(''vehicleNo'', JInt 7), (''route'', JStr ''R''), (''stop_location'', JStr ''L'')])
     = Inl (RequestValidationError [(''vehicleNo'', ''string_type'')])"
    by (simp add: BusReport_validate_def lookup_alias_def alias_label_def field_errors_def)
  from ingest_rejects_invalid_report [OF h, of "''2024-06-01T08:00:00''" None initial_store] h v
  show ?thesis
    by (simp add: post_ingest_def get_data_def initial_store_def)
qed

section \<open>Collections with an entry that is not an object\<close>

text \<open>
  The collections of the theorems above are those whose entries are all JSON objects.
  On any other collection the first filter already raises \<^verbatim>\<open>AttributeError\<close>,
  whatever car is requested.
\<close>

lemma comprehension_non_object:
  "\<not> list_all is_dict schedules \<Longrightarrow> comprehension cond schedules = Inl (AttributeError ''get'')"
proof (induction schedules)
  case Nil
  then show ?case by simp
next
  case (Cons s rest)
  then show ?case by (cases s) auto
qed

lemma lookup_schedule_non_object:
  "\<not> list_all is_dict schedules \<Longrightarrow>
     lookup_schedule sai today_str car_no schedules = Inl (AttributeError ''get'')"
  by (simp add: lookup_schedule_def comprehension_non_object)

lemma list_all_is_dict_map: "list_all is_dict schedules = (\<exists>entries. schedules = map JObj entries)"
proof
  assume "list_all is_dict schedules"
  then show "\<exists>entries. schedules = map JObj entries"
  proof (induction schedules)
    case Nil
    then show ?case by simp
  next
    case (Cons s rest)
    then obtain entries where "rest = map JObj entries" by auto
    moreover from Cons.prems obtain d where "s = JObj d" by (cases s) auto
    ultimately have "s # rest = map JObj (d # entries)" by simp
    then show ?case by (rule exI)
  qed
next
  assume "\<exists>entries. schedules = map JObj entries"
  then show "list_all is_dict schedules" by (auto simp: list_all_iff)
qed

end
